theory Spec2Isabelle
  imports Main
begin

section \<open>Data model (src/interfaces/controller.ts)\<close>

text \<open>
  \<^verbatim>\<open>CONTROLLER_METHOD\<close> is the enum of the four verbs.  A \<^verbatim>\<open>ControllerHandler\<close> is an
  object with the fields \<^verbatim>\<open>method\<close>, \<^verbatim>\<open>path\<close> and \<^verbatim>\<open>handler\<close> (the name of the method
  to call).  A \<^verbatim>\<open>Controller\<close> has \<^verbatim>\<open>name\<close>, \<^verbatim>\<open>instance\<close> and the optional array
  \<^verbatim>\<open>handler\<close>; the last two are written \<open>instance_ref\<close> and \<open>handler_arr\<close> here, because
  \<open>instance\<close> is an Isabelle keyword and \<open>handler\<close> is already the field of
  \<^verbatim>\<open>ControllerHandler\<close>, whose \<^verbatim>\<open>method\<close> is written \<open>http_method\<close> for the same
  reason.

  JavaScript objects and arrays have an identity: \<^verbatim>\<open>Array.prototype.indexOf\<close> compares
  with \<^verbatim>\<open>===\<close>, and \<^verbatim>\<open>addController\<close> hands the controller's own array to
  \<^verbatim>\<open>addControllerHandlers\<close>.  Handler objects, arrays, routers and controller instances
  are therefore kept in a store and named by addresses.
\<close>

datatype CONTROLLER_METHOD = GET | POST | PUT | DELETE

type_synonym addr = nat

record ControllerHandler =
  http_method :: CONTROLLER_METHOD
  path :: string
  handler :: string

record Controller =
  name :: string
  instance_ref :: addr
  handler_arr :: "addr option"

text \<open>An entry of \<^verbatim>\<open>RouterControllerMap\<close>: the express Router and the controller.\<close>

record entry =
  router :: addr
  controller :: Controller

section \<open>The HTTP engine, as far as the server drives it\<close>

text \<open>
  The express application is the list of what was mounted with \<^verbatim>\<open>app.use\<close>, in order.
  A router is the list of its routes; a route remembers the verb, the path and what the
  closure installed by \<^verbatim>\<open>addControllerHandlers\<close> captured: the controller instance and
  the name of the method.
\<close>

datatype middleware =
    UseJson
  | UseMorgan string
  | UseMiddleware nat
  | UseRouter addr
  | UseStatic string
  | UseSwaggerUi string string

record route =
  verb :: CONTROLLER_METHOD
  route_path :: string
  target :: addr
  method_name :: string

datatype port_spec = PortNumber nat | PortString string

record http_server =
  listening :: bool
  bound_port :: "port_spec option"

datatype js_error = Error string | TypeError | RangeError

datatype completion = Normal | Throw js_error

text \<open>
  The values a controller method can hand back: \<^verbatim>\<open>undefined\<close>, \<^verbatim>\<open>null\<close>, a boolean,
  a number (the integers among them), a string, or an object, known by its address.
  What a controller method does with a request: return a value, throw, or return a
  promise that is fulfilled, rejected or never settled.
\<close>

type_synonym request = string

datatype jsvalue =
    JUndefined
  | JNull
  | JBool bool
  | JNumber int
  | JString string
  | JObject addr

datatype method_result =
    Returns jsvalue
  | Throws js_error
  | Resolves jsvalue
  | Rejects js_error
  | Pending

type_synonym instance_obj = "string \<rightharpoonup> (request \<Rightarrow> method_result)"



section \<open>State\<close>

text \<open>
  The fields \<^verbatim>\<open>app\<close>, \<^verbatim>\<open>server\<close> and \<^verbatim>\<open>routerControllerMap\<close> of \<^verbatim>\<open>ExpressServer\<close>,
  and the objects they refer to.  \<open>routerControllerMap\<close> holds the own properties of the
  dictionary object.  \<open>next_router\<close> and \<open>next_array\<close> are the addresses the next
  \<^verbatim>\<open>express.Router()\<close> and the next array literal receive.  The registry stores the
  controller by value: the server is the only one that writes to it in this model.
\<close>

record state =
  app :: "middleware list"
  server :: "http_server option"
  routerControllerMap :: "string \<rightharpoonup> entry"
  routers :: "addr \<Rightarrow> route list"
  next_router :: addr
  arrays :: "addr \<Rightarrow> addr list"
  next_array :: addr
  handlerObjs :: "addr \<Rightarrow> ControllerHandler"
  instances :: "addr \<Rightarrow> instance_obj"

section \<open>The registry (src/basic-service/servers/express-server.ts)\<close>

text \<open>
  \<^verbatim>\<open>routerControllerMap\<close> is a plain object literal, so \<^verbatim>\<open>this.routerControllerMap[k]\<close>
  finds an own property first and the properties of \<^verbatim>\<open>Object.prototype\<close> after it.
  Every one of those is a function or an object, hence truthy, and none has a
  \<^verbatim>\<open>router\<close> or a \<^verbatim>\<open>controller\<close> property.
\<close>

definition object_prototype_keys :: "string list" where
  "object_prototype_keys =
     [''constructor'', ''__defineGetter__'', ''__defineSetter__'', ''hasOwnProperty'',
      ''__lookupGetter__'', ''__lookupSetter__'', ''isPrototypeOf'',
      ''propertyIsEnumerable'', ''toString'', ''valueOf'', ''__proto__'',
      ''toLocaleString'']"

datatype 'a property = Undefined | Inherited | Own 'a

definition get_entry :: "state \<Rightarrow> string \<Rightarrow> entry property" where
  "get_entry s k =
     (case routerControllerMap s k of
        Some e \<Rightarrow> Own e
      | None \<Rightarrow> if k \<in> set object_prototype_keys then Inherited else Undefined)"

text \<open>\<^verbatim>\<open>createRouterForController\<close>: a new router, stored with the controller under its name.\<close>

definition createRouterForController :: "Controller \<Rightarrow> state \<Rightarrow> addr \<times> state" where
  "createRouterForController c s =
     (let r = next_router s in
      (r, s\<lparr>routers := (routers s)(r := []),
             next_router := Suc r,
             routerControllerMap :=
               (routerControllerMap s)(name c \<mapsto> \<lparr>router = r, controller = c\<rparr>)\<rparr>))"

text \<open>\<^verbatim>\<open>router[method](path, async (req, res) => ...)\<close>: one more route in the router.\<close>

definition route_of :: "addr \<Rightarrow> ControllerHandler \<Rightarrow> route" where
  "route_of inst d =
     \<lparr>verb = http_method d, route_path = path d, target = inst, method_name = handler d\<rparr>"

definition bind_route :: "addr \<Rightarrow> addr \<Rightarrow> ControllerHandler \<Rightarrow> state \<Rightarrow> state" where
  "bind_route r inst d s = s\<lparr>routers := (routers s)(r := routers s r @ [route_of inst d])\<rparr>"

text \<open>
  \<^verbatim>\<open>if (!...controller.handler) { ...controller.handler = []; }\<close>: the array of the
  entry, created when the controller has none.
\<close>

definition ensure_handler_array :: "string \<Rightarrow> entry \<Rightarrow> state \<Rightarrow> addr \<times> state" where
  "ensure_handler_array cid e s =
     (case handler_arr (controller e) of
        Some a \<Rightarrow> (a, s)
      | None \<Rightarrow>
          (let a = next_array s in
           (a, s\<lparr>arrays := (arrays s)(a := []),
                  next_array := Suc a,
                  routerControllerMap :=
                    (routerControllerMap s)
                      (cid \<mapsto> e\<lparr>controller := (controller e)\<lparr>handler_arr := Some a\<rparr>\<rparr>)\<rparr>)))"

text \<open>
  \<^verbatim>\<open>if (...handler?.indexOf(controllerHandler) === -1) { ...handler?.push(controllerHandler); }\<close>:
  \<^verbatim>\<open>indexOf\<close> compares the elements, which are object references, with \<^verbatim>\<open>===\<close>.
\<close>

definition push_if_absent :: "addr \<Rightarrow> addr \<Rightarrow> state \<Rightarrow> state" where
  "push_if_absent a h s =
     (if h \<notin> set (arrays s a) then s\<lparr>arrays := (arrays s)(a := arrays s a @ [h])\<rparr> else s)"

text \<open>
  The body of the callback given to \<^verbatim>\<open>forEach\<close>.  \<open>r\<close> and \<open>inst\<close> are the constants
  \<^verbatim>\<open>router\<close> and \<^verbatim>\<open>controller\<close> read before the loop; the registry entry is looked up
  again on every pass, as the source does.
\<close>

definition attach :: "string \<Rightarrow> addr \<Rightarrow> addr \<Rightarrow> addr \<Rightarrow> state \<Rightarrow> completion \<times> state" where
  "attach cid r inst h s =
     (let s1 = bind_route r inst (handlerObjs s h) s in
      case get_entry s1 cid of
        Own e \<Rightarrow>
          (let (a, s2) = ensure_handler_array cid e s1 in (Normal, push_if_absent a h s2))
      | Inherited \<Rightarrow> (Throw TypeError, s1)
      | Undefined \<Rightarrow> (Throw TypeError, s1))"

text \<open>
  \<^verbatim>\<open>Array.prototype.forEach\<close> reads the length once and then visits the indices below
  it, reading each element from the array as it is at that moment and skipping an index
  that is not there.  \<open>forEach f a i k\<close> visits the \<open>k\<close> indices from \<open>i\<close> on.
\<close>

fun forEach :: "(addr \<Rightarrow> state \<Rightarrow> completion \<times> state) \<Rightarrow> addr \<Rightarrow> nat \<Rightarrow> nat \<Rightarrow> state
    \<Rightarrow> completion \<times> state" where
  "forEach f a i 0 s = (Normal, s)"
| "forEach f a i (Suc k) s =
     (if i < length (arrays s a) then
        (case f (arrays s a ! i) s of
           (Normal, s') \<Rightarrow> forEach f a (Suc i) k s'
         | (Throw e, s') \<Rightarrow> (Throw e, s'))
      else forEach f a (Suc i) k s)"

text \<open>
  The second argument of \<^verbatim>\<open>addControllerHandlers\<close> is one handler object or an array
  of them.  A single object is wrapped in a new one-element array that nothing else
  refers to, so the callback runs once, on that object.
\<close>

datatype handlers_arg = One addr | Many addr

definition addControllerHandlers :: "string \<Rightarrow> handlers_arg \<Rightarrow> state \<Rightarrow> completion \<times> state" where
  "addControllerHandlers controllerid controllerHandlers s =
     (case get_entry s controllerid of
        Undefined \<Rightarrow> (Throw (Error ''controller not found''), s)
      | Inherited \<Rightarrow> (Throw TypeError, s)
      | Own e \<Rightarrow>
          (case controllerHandlers of
             One h \<Rightarrow> attach controllerid (router e) (instance_ref (controller e)) h s
           | Many a \<Rightarrow>
               forEach (attach controllerid (router e) (instance_ref (controller e)))
                 a 0 (length (arrays s a)) s))"

definition addController :: "Controller \<Rightarrow> state \<Rightarrow> completion \<times> state" where
  "addController c s =
     (case get_entry s (name c) of
        Undefined \<Rightarrow>
          (let (r, s1) = createRouterForController c s in
           case handler_arr c of
             None \<Rightarrow> (Normal, s1\<lparr>app := app s1 @ [UseRouter r]\<rparr>)
           | Some a \<Rightarrow>
               (case addControllerHandlers (name c) (Many a) s1 of
                  (Normal, s2) \<Rightarrow> (Normal, s2\<lparr>app := app s2 @ [UseRouter r]\<rparr>)
                | (Throw e, s2) \<Rightarrow> (Throw e, s2)))
      | Inherited \<Rightarrow> (Throw (Error ''controller already presents''), s)
      | Own e \<Rightarrow> (Throw (Error ''controller already presents''), s))"

section \<open>Dispatch: the closure installed for a route\<close>

text \<open>
  \<^verbatim>\<open>async (req, res) => { const response = await controller[handler](req); return res.send(response); }\<close>.
  \<^verbatim>\<open>res.send\<close> belongs to the engine and is the argument \<open>res_send\<close>: it takes the value
  and the response object and either returns or throws, leaving the response as it made
  it.  The result of the closure is how its promise settles, and the response object
  after it.  Calling a property that is not there is a TypeError.
\<close>

datatype settled = Fulfilled | Rejected js_error | Unsettled

fun settle :: "completion \<times> 'r \<Rightarrow> settled \<times> 'r" where
  "settle (Normal, res) = (Fulfilled, res)"
| "settle (Throw e, res) = (Rejected e, res)"

definition route_handler ::
    "(jsvalue \<Rightarrow> 'r \<Rightarrow> completion \<times> 'r) \<Rightarrow> state \<Rightarrow> route \<Rightarrow> request \<Rightarrow> 'r \<Rightarrow> settled \<times> 'r" where
  "route_handler res_send s rt req res =
     (case instances s (target rt) (method_name rt) of
        None \<Rightarrow> (Rejected TypeError, res)
      | Some m \<Rightarrow>
          (case m req of
             Returns v \<Rightarrow> settle (res_send v res)
           | Resolves v \<Rightarrow> settle (res_send v res)
           | Throws e \<Rightarrow> (Rejected e, res)
           | Rejects e \<Rightarrow> (Rejected e, res)
           | Pending \<Rightarrow> (Unsettled, res)))"



section \<open>Lifecycle\<close>

text \<open>
  The constructor makes the express application and mounts the JSON body parser and
  the logger.  \<^verbatim>\<open>listen\<close> is \<^verbatim>\<open>this.server = this.app.listen(port, callback)\<close>: the
  engine's \<^verbatim>\<open>app.listen\<close> is the argument \<open>app_listen\<close>; when it throws (a RangeError
  for a port outside 0..65535), \<^verbatim>\<open>server\<close> is not assigned.
  \<^verbatim>\<open>close\<close> is \<^verbatim>\<open>this.server?.close()\<close>: nothing when \<^verbatim>\<open>server\<close> is undefined, else the
  engine's \<^verbatim>\<open>close\<close>, which stops the server and does not throw when given no callback.
\<close>

definition ExpressServer_constructor :: "state \<Rightarrow> state" where
  "ExpressServer_constructor s =
     s\<lparr>app := [UseJson, UseMorgan ''tiny''], server := None,
       routerControllerMap := Map.empty\<rparr>"

definition listen ::
    "(port_spec option \<Rightarrow> js_error + http_server) \<Rightarrow> port_spec option \<Rightarrow> state
      \<Rightarrow> completion \<times> state" where
  "listen app_listen p s =
     (case app_listen p of
        Inl e \<Rightarrow> (Throw e, s)
      | Inr srv \<Rightarrow> (Normal, s\<lparr>server := Some srv\<rparr>))"

definition http_close :: "http_server \<Rightarrow> http_server" where
  "http_close srv = srv\<lparr>listening := False\<rparr>"

definition close :: "state \<Rightarrow> completion \<times> state" where
  "close s =
     (case server s of
        None \<Rightarrow> (Normal, s)
      | Some srv \<Rightarrow> (Normal, s\<lparr>server := Some (http_close srv)\<rparr>))"

definition addMiddleware :: "nat \<Rightarrow> state \<Rightarrow> state" where
  "addMiddleware m s = s\<lparr>app := app s @ [UseMiddleware m]\<rparr>"

definition DEFAULT_SWAGGER_PATH :: string where
  "DEFAULT_SWAGGER_PATH = ''/docs''"

definition DEFAULT_SWAGGER_LOCATION :: string where
  "DEFAULT_SWAGGER_LOCATION = ''public''"

definition DEFAULT_SWAGGER_URL :: string where
  "DEFAULT_SWAGGER_URL = ''/swagger.json''"

text \<open>
  \<^verbatim>\<open>express.static(root)\<close> makes the middleware that serves the files under \<open>root\<close>; it
  refuses an empty root with \<^verbatim>\<open>TypeError('root path required')\<close>.
\<close>

definition express_static :: "string \<Rightarrow> js_error + middleware" where
  "express_static root = (if root = [] then Inl TypeError else Inr (UseStatic root))"

text \<open>
  \<^verbatim>\<open>prepareSwagger(path = DEFAULT_SWAGGER_PATH, location = DEFAULT_SWAGGER_LOCATION)\<close>:
  a default parameter stands in for an argument that is undefined, and for no other.
  \<^verbatim>\<open>express.static(location)\<close> is evaluated before anything is mounted.
\<close>

definition prepareSwagger :: "string option \<Rightarrow> string option \<Rightarrow> state \<Rightarrow> completion \<times> state" where
  "prepareSwagger path_opt location_opt s =
     (let p = (case path_opt of None \<Rightarrow> DEFAULT_SWAGGER_PATH | Some x \<Rightarrow> x);
          location = (case location_opt of None \<Rightarrow> DEFAULT_SWAGGER_LOCATION | Some x \<Rightarrow> x)
      in case express_static location of
           Inl e \<Rightarrow> (Throw e, s)
         | Inr static \<Rightarrow>
             (Normal, s\<lparr>app := app s @ [static, UseSwaggerUi p DEFAULT_SWAGGER_URL]\<rparr>))"

section \<open>BasicService (src/basic-service/basic-service.ts)\<close>

text \<open>
  Modelled from the spec: the interface \<^verbatim>\<open>ServiceConfig\<close>, whose declaration is not among
  the sources; the spec gives it as
  \<^verbatim>\<open>{ port?, docsPath?, swaggerLocation?, swagger?: boolean }\<close>.
\<close>

record ServiceConfig =
  port :: "port_spec option"
  docsPath :: "string option"
  swaggerLocation :: "string option"
  swagger :: "bool option"

record BasicService =
  serviceConfig :: "ServiceConfig option"

text \<open>
  The constructor.  \<^verbatim>\<open>Server.getInstance()\<close> is not among the sources; the state of the
  server it returns is the argument \<open>s\<close>.  \<^verbatim>\<open>x?.f\<close> is undefined when \<open>x\<close> is.  The
  result is the new object, or the error thrown out of the constructor.
\<close>

definition BasicService_constructor ::
    "ServiceConfig option \<Rightarrow> state \<Rightarrow> (js_error + BasicService) \<times> state" where
  "BasicService_constructor cfg s =
     (let this = \<lparr>serviceConfig = cfg\<rparr> in
      if Option.bind (serviceConfig this) swagger \<noteq> Some False then
        (case prepareSwagger (Option.bind cfg docsPath) (Option.bind cfg swaggerLocation) s of
           (Normal, s') \<Rightarrow> (Inr this, s')
         | (Throw e, s') \<Rightarrow> (Inl e, s'))
      else (Inr this, s))"

definition run ::
    "(port_spec option \<Rightarrow> js_error + http_server) \<Rightarrow> BasicService \<Rightarrow> state
      \<Rightarrow> completion \<times> state" where
  "run app_listen this s = listen app_listen (Option.bind (serviceConfig this) port) s"

section \<open>Observations and example states\<close>

text \<open>
  The handler list of a registered controller, as the registry sees it: the elements of
  the array its \<^verbatim>\<open>handler\<close> field refers to, and no element while the field is
  undefined.  \<open>declarations\<close> lists the handler objects one call of
  \<^verbatim>\<open>addControllerHandlers\<close> is given.
\<close>

definition handlers_of :: "state \<Rightarrow> string \<Rightarrow> addr list" where
  "handlers_of s n =
     (case routerControllerMap s n of
        None \<Rightarrow> []
      | Some e \<Rightarrow> (case handler_arr (controller e) of None \<Rightarrow> [] | Some a \<Rightarrow> arrays s a))"

fun declarations :: "state \<Rightarrow> handlers_arg \<Rightarrow> addr list" where
  "declarations s (One h) = [h]"
| "declarations s (Many a) = arrays s a"

text \<open>
  An argument array exists when its address was handed out before.  A new array never
  receives the address of an array that exists.
\<close>

fun allocated :: "state \<Rightarrow> handlers_arg \<Rightarrow> bool" where
  "allocated s (One h) = True"
| "allocated s (Many a) = (a < next_array s)"

text \<open>No handler object occurs twice in the handler list of any registered controller.\<close>

definition no_repeated_handler :: "state \<Rightarrow> bool" where
  "no_repeated_handler s = (\<forall>n. distinct (handlers_of s n))"

text \<open>
  A world for the examples: the handler objects 0 and 1 are two different objects with
  the same three fields, objects 2 and 3 name other methods; array 0 is \<^verbatim>\<open>[h0, h2]\<close>
  and array 1 is empty;
  instance 0 has a method \<^verbatim>\<open>test\<close> that returns a string, \<^verbatim>\<open>later\<close> that returns a
  promise of one, \<^verbatim>\<open>code\<close> that returns the number 404, and \<^verbatim>\<open>boom\<close> that throws.
  \<open>example_server\<close> is a new server in it, and \<open>listening_server\<close> that server with an
  \<^verbatim>\<open>http.Server\<close> that listens.
\<close>

definition example_world :: state where
  "example_world =
     \<lparr>app = [], server = None, routerControllerMap = Map.empty,
      routers = (\<lambda>_. []), next_router = 0,
      arrays = (\<lambda>_. [])(0 := [0, 2]), next_array = 2,
      handlerObjs = (\<lambda>_. \<lparr>http_method = GET, path = ''/test'', handler = ''test''\<rparr>)
        (2 := \<lparr>http_method = POST, path = ''/later'', handler = ''later''\<rparr>,
         3 := \<lparr>http_method = GET, path = ''/code'', handler = ''code''\<rparr>),
      instances = (\<lambda>_. Map.empty)
        (0 := [''test'' \<mapsto> (\<lambda>req. Returns (JString (''got '' @ req))),
               ''later'' \<mapsto> (\<lambda>req. Resolves (JString (''then '' @ req))),
               ''code'' \<mapsto> (\<lambda>req. Returns (JNumber 404)),
               ''boom'' \<mapsto> (\<lambda>req. Throws (Error ''boom''))])\<rparr>"

definition example_server :: state where
  "example_server = ExpressServer_constructor example_world"

definition listening_server :: state where
  "listening_server = example_server\<lparr>server := Some \<lparr>listening = True, bound_port = None\<rparr>\<rparr>"

definition stub :: Controller where
  "stub = \<lparr>name = ''Stub'', instance_ref = 0, handler_arr = None\<rparr>"

definition test_controller :: Controller where
  "test_controller = \<lparr>name = ''test'', instance_ref = 0, handler_arr = Some 0\<rparr>"

definition empty_controller :: Controller where
  "empty_controller = \<lparr>name = ''Empty'', instance_ref = 0, handler_arr = Some 1\<rparr>"

text \<open>The example server after \<^verbatim>\<open>addController\<close> of the controller \<^verbatim>\<open>Stub\<close>.\<close>

definition registered_stub :: state where
  "registered_stub = snd (addController stub example_server)"

section \<open>Unfolding rules\<close>

lemmas example_defs = example_world_def example_server_def stub_def test_controller_def
  empty_controller_def ExpressServer_constructor_def

lemmas op_defs = addController_def addControllerHandlers_def attach_def get_entry_def
  createRouterForController_def bind_route_def ensure_handler_array_def push_if_absent_def
  object_prototype_keys_def

section \<open>One pass of the callback\<close>

text \<open>
  On a registered name the callback never throws.  What it does depends on whether the
  controller already has a handler array.
\<close>

lemma attach_Some:
  "routerControllerMap s cid = Some e \<Longrightarrow> handler_arr (controller e) = Some b \<Longrightarrow>
   attach cid r inst h s
     = (Normal, push_if_absent b h (bind_route r inst (handlerObjs s h) s))"
  by (simp add: attach_def get_entry_def bind_route_def ensure_handler_array_def Let_def)

lemma attach_None:
  "routerControllerMap s cid = Some e \<Longrightarrow> handler_arr (controller e) = None \<Longrightarrow>
   attach cid r inst h s
     = (Normal,
        s\<lparr>routers := (routers s)(r := routers s r @ [route_of inst (handlerObjs s h)]),
          arrays := (arrays s)(next_array s := [h]),
          next_array := Suc (next_array s),
          routerControllerMap := (routerControllerMap s)
            (cid \<mapsto> e\<lparr>controller := (controller e)\<lparr>handler_arr := Some (next_array s)\<rparr>\<rparr>)\<rparr>)"
  by (simp add: attach_def get_entry_def bind_route_def ensure_handler_array_def
      push_if_absent_def Let_def)

lemma attach_Normal:
  "routerControllerMap s cid = Some e \<Longrightarrow> fst (attach cid r inst h s) = Normal"
  by (cases "handler_arr (controller e)") (simp_all add: attach_Some attach_None)

lemma attach_routers:
  "routerControllerMap s cid = Some e \<Longrightarrow>
   routers (snd (attach cid r inst h s))
     = (routers s)(r := routers s r @ [route_of inst (handlerObjs s h)])"
  by (cases "handler_arr (controller e)")
    (simp_all add: attach_Some attach_None push_if_absent_def bind_route_def)

lemma attach_frame:
  "routerControllerMap s cid = Some e \<Longrightarrow>
   handlerObjs (snd (attach cid r inst h s)) = handlerObjs s \<and>
   instances (snd (attach cid r inst h s)) = instances s \<and>
   app (snd (attach cid r inst h s)) = app s \<and>
   server (snd (attach cid r inst h s)) = server s \<and>
   next_router (snd (attach cid r inst h s)) = next_router s"
  by (cases "handler_arr (controller e)")
    (simp_all add: attach_Some attach_None push_if_absent_def bind_route_def)

lemma attach_entry:
  "routerControllerMap s cid = Some e \<Longrightarrow>
   \<exists>e'. routerControllerMap (snd (attach cid r inst h s)) cid = Some e' \<and>
        router e' = router e \<and>
        instance_ref (controller e') = instance_ref (controller e) \<and>
        name (controller e') = name (controller e) \<and>
        handler_arr (controller e') \<noteq> None"
  by (cases "handler_arr (controller e)")
    (simp_all add: attach_Some attach_None push_if_absent_def bind_route_def)

lemma attach_handlers_of:
  "routerControllerMap s cid = Some e \<Longrightarrow>
   handlers_of (snd (attach cid r inst h s)) cid
     = (if h \<in> set (handlers_of s cid) then handlers_of s cid else handlers_of s cid @ [h])"
  by (cases "handler_arr (controller e)")
    (simp_all add: attach_Some attach_None push_if_absent_def bind_route_def handlers_of_def)

lemma attach_array:
  "routerControllerMap s cid = Some e \<Longrightarrow>
   handler_arr (controller e) = None \<longrightarrow> a \<noteq> next_array s \<Longrightarrow>
   arrays (snd (attach cid r inst h s)) a = arrays s a \<or>
   arrays (snd (attach cid r inst h s)) a = arrays s a @ [h]"
  by (cases "handler_arr (controller e)")
    (simp_all add: attach_Some attach_None push_if_absent_def bind_route_def)

section \<open>The loop over the argument array\<close>

text \<open>
  When the array given to \<^verbatim>\<open>addControllerHandlers\<close> is the controller's own array,
  every element is found by \<^verbatim>\<open>indexOf\<close> and the loop only binds routes.  In general
  the callback may push to the array it is iterating over, or create the controller's
  array; the elements below the length read at the start stay where they are, provided
  the new array is not given the address of the argument array.
\<close>

lemma take_drop_step:
  "i < length xs \<Longrightarrow> take (Suc k) (drop i xs) = xs ! i # take k (drop (Suc i) xs)"
  by (simp add: Cons_nth_drop_Suc [symmetric])

lemma forEach_own_array:
  "routerControllerMap s cid = Some e \<Longrightarrow> handler_arr (controller e) = Some a \<Longrightarrow>
   i + k \<le> length (arrays s a) \<Longrightarrow>
   forEach (attach cid r inst) a i k s
     = (Normal,
        s\<lparr>routers := (routers s)
            (r := routers s r @
               map (\<lambda>h. route_of inst (handlerObjs s h)) (take k (drop i (arrays s a))))\<rparr>)"
proof (induction k arbitrary: i s)
  case 0
  then show ?case by simp
next
  case (Suc k)
  define h where "h = arrays s a ! i"
  define s1 where "s1 = bind_route r inst (handlerObjs s h) s"
  define ms where "ms = map (\<lambda>h. route_of inst (handlerObjs s h)) (take k (drop (Suc i) (arrays s a)))"
  from Suc.prems have i: "i < length (arrays s a)" by simp
  then have mem: "h \<in> set (arrays s a)" by (simp add: h_def)
  have step: "attach cid r inst h s = (Normal, s1)"
    using Suc.prems(1,2) mem by (simp add: attach_Some push_if_absent_def bind_route_def s1_def)
  have s1: "routerControllerMap s1 cid = Some e" "arrays s1 = arrays s"
    "handlerObjs s1 = handlerObjs s"
    using Suc.prems(1) by (simp_all add: bind_route_def s1_def)
  have "forEach (attach cid r inst) a (Suc i) k s1
     = (Normal,
        s1\<lparr>routers := (routers s1)
            (r := routers s1 r @
               map (\<lambda>h. route_of inst (handlerObjs s1 h)) (take k (drop (Suc i) (arrays s1 a))))\<rparr>)"
    using Suc.prems s1 by (intro Suc.IH) simp_all
  then have rest: "forEach (attach cid r inst) a (Suc i) k s1
     = (Normal, s1\<lparr>routers := (routers s1)(r := routers s1 r @ ms)\<rparr>)"
    by (simp add: s1 ms_def)
  have unroll: "forEach (attach cid r inst) a i (Suc k) s
     = forEach (attach cid r inst) a (Suc i) k s1"
    by (simp add: i h_def [symmetric] step)
  have fin: "s1\<lparr>routers := (routers s1)(r := routers s1 r @ ms)\<rparr>
     = s\<lparr>routers := (routers s)(r := routers s r @ route_of inst (handlerObjs s h) # ms)\<rparr>"
    by (simp add: s1_def bind_route_def)
  have td: "take (Suc k) (drop i (arrays s a)) = h # take k (drop (Suc i) (arrays s a))"
    using take_drop_step [OF i] by (simp add: h_def)
  have "forEach (attach cid r inst) a i (Suc k) s
     = (Normal,
        s\<lparr>routers := (routers s)(r := routers s r @ route_of inst (handlerObjs s h) # ms)\<rparr>)"
    by (simp only: unroll rest fin)
  then show ?case
    by (simp only: td list.map ms_def)
qed

lemma forEach_attach:
  "routerControllerMap s cid = Some e \<Longrightarrow>
   handler_arr (controller e) = None \<longrightarrow> a \<noteq> next_array s \<Longrightarrow>
   i + k \<le> length (arrays s a) \<Longrightarrow>
   fst (forEach (attach cid r inst) a i k s) = Normal \<and>
   routers (snd (forEach (attach cid r inst) a i k s))
     = (routers s)
         (r := routers s r @
            map (\<lambda>h. route_of inst (handlerObjs s h)) (take k (drop i (arrays s a)))) \<and>
   handlerObjs (snd (forEach (attach cid r inst) a i k s)) = handlerObjs s \<and>
   instances (snd (forEach (attach cid r inst) a i k s)) = instances s \<and>
   (\<exists>e'. routerControllerMap (snd (forEach (attach cid r inst) a i k s)) cid = Some e' \<and>
         router e' = router e \<and>
         instance_ref (controller e') = instance_ref (controller e))"
proof (induction k arbitrary: i s e)
  case 0
  then show ?case by simp
next
  case (Suc k)
  define h where "h = arrays s a ! i"
  define s1 where "s1 = snd (attach cid r inst h s)"
  from Suc.prems have i: "i < length (arrays s a)" by simp
  have step: "attach cid r inst h s = (Normal, s1)"
    using attach_Normal [OF Suc.prems(1), of r inst h] by (simp add: prod_eq_iff s1_def)
  obtain e1 where e1: "routerControllerMap s1 cid = Some e1" "router e1 = router e"
    "instance_ref (controller e1) = instance_ref (controller e)"
    "handler_arr (controller e1) \<noteq> None"
    using attach_entry [OF Suc.prems(1), of r inst h] unfolding s1_def by blast
  have arr: "arrays s1 a = arrays s a \<or> arrays s1 a = arrays s a @ [h]"
    using attach_array [OF Suc.prems(1,2)] unfolding s1_def .
  then have len: "Suc i + k \<le> length (arrays s1 a)"
    using Suc.prems(3) by auto
  have same: "take k (drop (Suc i) (arrays s1 a)) = take k (drop (Suc i) (arrays s a))"
    using arr Suc.prems(3) by auto
  have fr: "handlerObjs s1 = handlerObjs s" "instances s1 = instances s"
    using attach_frame [OF Suc.prems(1), of r inst h] by (simp_all add: s1_def)
  have rt: "routers s1 = (routers s)(r := routers s r @ [route_of inst (handlerObjs s h)])"
    using attach_routers [OF Suc.prems(1)] unfolding s1_def .
  have IH: "fst (forEach (attach cid r inst) a (Suc i) k s1) = Normal \<and>
   routers (snd (forEach (attach cid r inst) a (Suc i) k s1))
     = (routers s1)
         (r := routers s1 r @
            map (\<lambda>h. route_of inst (handlerObjs s1 h)) (take k (drop (Suc i) (arrays s1 a)))) \<and>
   handlerObjs (snd (forEach (attach cid r inst) a (Suc i) k s1)) = handlerObjs s1 \<and>
   instances (snd (forEach (attach cid r inst) a (Suc i) k s1)) = instances s1 \<and>
   (\<exists>e'. routerControllerMap (snd (forEach (attach cid r inst) a (Suc i) k s1)) cid = Some e' \<and>
         router e' = router e1 \<and>
         instance_ref (controller e') = instance_ref (controller e1))"
    using e1(1,4) len by (intro Suc.IH) auto
  have unroll: "forEach (attach cid r inst) a i (Suc k) s
      = forEach (attach cid r inst) a (Suc i) k s1"
    by (simp add: i h_def [symmetric] step)
  have td: "take (Suc k) (drop i (arrays s a)) = h # take k (drop (Suc i) (arrays s a))"
    using take_drop_step [OF i] by (simp add: h_def)
  show ?case
    unfolding unroll using IH e1(2,3) by (simp add: same fr rt td)
qed

lemma forEach_invariant:
  assumes step: "\<And>h s c s'. P s \<Longrightarrow> f h s = (c, s') \<Longrightarrow> P s'"
  shows "P s \<Longrightarrow> forEach f a i k s = (c, s') \<Longrightarrow> P s'"
proof (induction k arbitrary: i s)
  case 0
  then show ?case by simp
next
  case (Suc k)
  show ?case
  proof (cases "i < length (arrays s a)")
    case False
    with Suc show ?thesis by simp
  next
    case True
    obtain c1 s1 where f: "f (arrays s a ! i) s = (c1, s1)" by (cases "f (arrays s a ! i) s")
    have P1: "P s1" using step [OF Suc.prems(1) f] .
    show ?thesis
    proof (cases c1)
      case Normal
      with Suc.prems(2) True f have "forEach f a (Suc i) k s1 = (c, s')" by simp
      from Suc.IH [OF P1 this] show ?thesis .
    next
      case (Throw x)
      with Suc.prems(2) True f have "s' = s1" by simp
      with P1 show ?thesis by simp
    qed
  qed
qed

lemma addControllerHandlers_One:
  "routerControllerMap s cid = Some e \<Longrightarrow>
   addControllerHandlers cid (One h) s
     = attach cid (router e) (instance_ref (controller e)) h s"
  by (simp add: addControllerHandlers_def get_entry_def)

lemma addControllerHandlers_Many:
  "routerControllerMap s cid = Some e \<Longrightarrow>
   addControllerHandlers cid (Many a) s
     = forEach (attach cid (router e) (instance_ref (controller e))) a 0 (length (arrays s a)) s"
  by (simp add: addControllerHandlers_def get_entry_def)

lemma addControllerHandlers_registered:
  assumes "routerControllerMap s cid = Some e" and "allocated s arg"
  shows "fst (addControllerHandlers cid arg s) = Normal"
    and "routers (snd (addControllerHandlers cid arg s))
      = (routers s)(router e := routers s (router e) @
          map (\<lambda>h. route_of (instance_ref (controller e)) (handlerObjs s h)) (declarations s arg))"
    and "handlerObjs (snd (addControllerHandlers cid arg s)) = handlerObjs s"
    and "instances (snd (addControllerHandlers cid arg s)) = instances s"
    and "\<exists>e'. routerControllerMap (snd (addControllerHandlers cid arg s)) cid = Some e' \<and>
           router e' = router e \<and> instance_ref (controller e') = instance_ref (controller e)"
proof -
  have "fst (addControllerHandlers cid arg s) = Normal \<and>
    routers (snd (addControllerHandlers cid arg s))
      = (routers s)(router e := routers s (router e) @
          map (\<lambda>h. route_of (instance_ref (controller e)) (handlerObjs s h)) (declarations s arg)) \<and>
    handlerObjs (snd (addControllerHandlers cid arg s)) = handlerObjs s \<and>
    instances (snd (addControllerHandlers cid arg s)) = instances s \<and>
    (\<exists>e'. routerControllerMap (snd (addControllerHandlers cid arg s)) cid = Some e' \<and>
           router e' = router e \<and> instance_ref (controller e') = instance_ref (controller e))"
  proof (cases arg)
    case (One h)
    show ?thesis
      using attach_Normal [OF assms(1)] attach_routers [OF assms(1)] attach_frame [OF assms(1)]
        attach_entry [OF assms(1), of "router e" "instance_ref (controller e)" h]
      unfolding One addControllerHandlers_One [OF assms(1)] by auto
  next
    case (Many a)
    with assms(2) have "handler_arr (controller e) = None \<longrightarrow> a \<noteq> next_array s" by simp
    from forEach_attach [OF assms(1) this, of 0 "length (arrays s a)"]
    show ?thesis
      unfolding Many addControllerHandlers_Many [OF assms(1)] by simp
  qed
  then show "fst (addControllerHandlers cid arg s) = Normal"
    and "routers (snd (addControllerHandlers cid arg s))
      = (routers s)(router e := routers s (router e) @
          map (\<lambda>h. route_of (instance_ref (controller e)) (handlerObjs s h)) (declarations s arg))"
    and "handlerObjs (snd (addControllerHandlers cid arg s)) = handlerObjs s"
    and "instances (snd (addControllerHandlers cid arg s)) = instances s"
    and "\<exists>e'. routerControllerMap (snd (addControllerHandlers cid arg s)) cid = Some e' \<and>
           router e' = router e \<and> instance_ref (controller e') = instance_ref (controller e)"
    by blast+
qed

lemma attach_twice_handlers_of:
  assumes "routerControllerMap s cid = Some e"
  shows "handlers_of (snd (addControllerHandlers cid (One h) s)) cid
      = (if h \<in> set (handlers_of s cid) then handlers_of s cid else handlers_of s cid @ [h])"
  using attach_handlers_of [OF assms] by (simp add: addControllerHandlers_One [OF assms])

section \<open>The handler list has no repeated object\<close>

lemma handlers_of_frame:
  "handlers_of (s\<lparr>routers := x\<rparr>) n = handlers_of s n"
  "handlers_of (s\<lparr>app := y\<rparr>) n = handlers_of s n"
  "handlers_of (s\<lparr>server := z\<rparr>) n = handlers_of s n"
  "handlers_of (s\<lparr>next_router := i\<rparr>) n = handlers_of s n"
  "handlers_of (s\<lparr>next_array := j\<rparr>) n = handlers_of s n"
  by (simp_all add: handlers_of_def split: option.splits)

lemma no_repeated_frame:
  "no_repeated_handler (s\<lparr>routers := x\<rparr>) = no_repeated_handler s"
  "no_repeated_handler (s\<lparr>app := y\<rparr>) = no_repeated_handler s"
  "no_repeated_handler (s\<lparr>server := z\<rparr>) = no_repeated_handler s"
  by (simp_all add: no_repeated_handler_def handlers_of_frame)

lemma attach_no_repeated:
  assumes "no_repeated_handler s" and "attach cid r inst h s = (c, s')"
  shows "no_repeated_handler s'"
proof (cases "routerControllerMap s cid")
  case None
  with assms(2) have "s' = bind_route r inst (handlerObjs s h) s"
    by (auto simp add: attach_def get_entry_def bind_route_def Let_def split: if_splits)
  with assms(1) show ?thesis
    by (simp add: no_repeated_frame bind_route_def)
next
  case (Some e)
  show ?thesis
  proof (cases "handler_arr (controller e)")
    case None
    from attach_None [OF Some None, of r inst h] assms(2)
    have s': "s' = s\<lparr>routers := (routers s)(r := routers s r @ [route_of inst (handlerObjs s h)]),
          arrays := (arrays s)(next_array s := [h]),
          next_array := Suc (next_array s),
          routerControllerMap := (routerControllerMap s)
            (cid \<mapsto> e\<lparr>controller := (controller e)\<lparr>handler_arr := Some (next_array s)\<rparr>\<rparr>)\<rparr>"
      by simp
    show ?thesis
      unfolding no_repeated_handler_def
    proof
      fix n
      have "distinct (handlers_of s n)" using assms(1) by (simp add: no_repeated_handler_def)
      then show "distinct (handlers_of s' n)"
        by (simp add: s' handlers_of_def split: option.splits)
    qed
  next
    case (Some b)
    from attach_Some [OF \<open>routerControllerMap s cid = Some e\<close> Some, of r inst h] assms(2)
    have s': "s' = push_if_absent b h (bind_route r inst (handlerObjs s h) s)"
      by simp
    have db: "distinct (arrays s b)"
      using assms(1) \<open>routerControllerMap s cid = Some e\<close> Some
      by (auto simp add: no_repeated_handler_def handlers_of_def split: option.splits
          dest: spec [of _ cid])
    show ?thesis
      unfolding no_repeated_handler_def
    proof
      fix n
      have "distinct (handlers_of s n)" using assms(1) by (simp add: no_repeated_handler_def)
      then show "distinct (handlers_of s' n)"
        using db
        by (simp add: s' handlers_of_def push_if_absent_def bind_route_def split: option.splits)
    qed
  qed
qed

lemma addControllerHandlers_no_repeated:
  assumes "no_repeated_handler s"
  shows "no_repeated_handler (snd (addControllerHandlers cid arg s))"
proof (cases "get_entry s cid")
  case Undefined
  with assms show ?thesis by (simp add: addControllerHandlers_def)
next
  case Inherited
  with assms show ?thesis by (simp add: addControllerHandlers_def)
next
  case (Own e)
  show ?thesis
  proof (cases arg)
    case (One h)
    have "attach cid (router e) (instance_ref (controller e)) h s
        = (fst (addControllerHandlers cid arg s), snd (addControllerHandlers cid arg s))"
      using Own One by (simp add: addControllerHandlers_def)
    from attach_no_repeated [OF assms this] show ?thesis .
  next
    case (Many a)
    have run: "forEach (attach cid (router e) (instance_ref (controller e))) a 0
          (length (arrays s a)) s
        = (fst (addControllerHandlers cid arg s), snd (addControllerHandlers cid arg s))"
      using Own Many by (simp add: addControllerHandlers_def)
    show ?thesis
      by (rule forEach_invariant [where P = no_repeated_handler, OF _ assms run])
        (rule attach_no_repeated)
  qed
qed

lemma addController_no_repeated:
  assumes "no_repeated_handler s"
    and "distinct (case handler_arr c of None \<Rightarrow> [] | Some a \<Rightarrow> arrays s a)"
  shows "no_repeated_handler (snd (addController c s))"
proof (cases "get_entry s (name c)")
  case Inherited
  with assms(1) show ?thesis by (simp add: addController_def)
next
  case (Own e)
  with assms(1) show ?thesis by (simp add: addController_def)
next
  case Undefined
  define s1 where "s1 = snd (createRouterForController c s)"
  have s1: "no_repeated_handler s1"
    unfolding no_repeated_handler_def
  proof
    fix n
    have "distinct (handlers_of s n)" using assms(1) by (simp add: no_repeated_handler_def)
    then show "distinct (handlers_of s1 n)"
      using assms(2)
      by (simp add: s1_def createRouterForController_def handlers_of_def Let_def
          split: option.splits)
  qed
  note app_irrelevant = no_repeated_frame(2)
  show ?thesis
  proof (cases "handler_arr c")
    case None
    with Undefined s1 show ?thesis
      by (simp add: addController_def app_irrelevant s1_def createRouterForController_def Let_def)
  next
    case (Some a)
    have "no_repeated_handler (snd (addControllerHandlers (name c) (Many a) s1))"
      by (rule addControllerHandlers_no_repeated [OF s1])
    then show ?thesis
      using Undefined Some
      by (auto simp add: addController_def app_irrelevant s1_def createRouterForController_def
          Let_def split: prod.splits completion.splits)
  qed
qed

lemma lifecycle_no_repeated:
  "no_repeated_handler (snd (close s)) = no_repeated_handler s"
  "no_repeated_handler (snd (listen app_listen p s)) = no_repeated_handler s"
  "no_repeated_handler (snd (prepareSwagger x y s)) = no_repeated_handler s"
  "no_repeated_handler (addMiddleware m s) = no_repeated_handler s"
  by (simp_all add: no_repeated_frame close_def listen_def prepareSwagger_def
      express_static_def addMiddleware_def Let_def split: option.splits sum.splits)

section \<open>Registration\<close>

lemma addController_success:
  "addController c s = (Normal, s') \<Longrightarrow> get_entry s (name c) = Undefined"
  by (cases "get_entry s (name c)") (simp_all add: addController_def)

lemma addController_no_handler:
  assumes "get_entry s (name c) = Undefined" and "handler_arr c = None"
  shows "addController c s
    = (Normal,
       s\<lparr>routers := (routers s)(next_router s := []),
         next_router := Suc (next_router s),
         routerControllerMap :=
           (routerControllerMap s)(name c \<mapsto> \<lparr>router = next_router s, controller = c\<rparr>),
         app := app s @ [UseRouter (next_router s)]\<rparr>)"
  using assms by (simp add: addController_def createRouterForController_def Let_def)

lemma addController_with_handlers:
  assumes "get_entry s (name c) = Undefined" and "handler_arr c = Some a"
  shows "addController c s
    = (Normal,
       s\<lparr>routers := (routers s)
           (next_router s := map (\<lambda>h. route_of (instance_ref c) (handlerObjs s h)) (arrays s a)),
         next_router := Suc (next_router s),
         routerControllerMap :=
           (routerControllerMap s)(name c \<mapsto> \<lparr>router = next_router s, controller = c\<rparr>),
         app := app s @ [UseRouter (next_router s)]\<rparr>)"
proof -
  define r where "r = next_router s"
  define s1 where "s1 = s\<lparr>routers := (routers s)(r := []), next_router := Suc r,
    routerControllerMap := (routerControllerMap s)(name c \<mapsto> \<lparr>router = r, controller = c\<rparr>)\<rparr>"
  have cr: "createRouterForController c s = (r, s1)"
    by (simp add: createRouterForController_def Let_def r_def s1_def)
  have reg: "routerControllerMap s1 (name c) = Some \<lparr>router = r, controller = c\<rparr>"
    by (simp add: s1_def)
  have own: "handler_arr (controller \<lparr>router = r, controller = c\<rparr>) = Some a"
    using assms(2) by simp
  have loop: "addControllerHandlers (name c) (Many a) s1
    = (Normal,
       s1\<lparr>routers := (routers s1)
           (r := routers s1 r @
              map (\<lambda>h. route_of (instance_ref c) (handlerObjs s1 h)) (arrays s1 a))\<rparr>)"
    using forEach_own_array [OF reg own, of 0 "length (arrays s1 a)" r "instance_ref c"]
    by (simp add: addControllerHandlers_Many [OF reg])
  show ?thesis
    using assms by (simp add: addController_def cr loop) (simp add: s1_def r_def)
qed

lemma registered_stub_eq:
  "registered_stub =
     example_world\<lparr>app := [UseJson, UseMorgan ''tiny'', UseRouter 0], server := None,
       routerControllerMap := [''Stub'' \<mapsto> \<lparr>router = 0, controller = stub\<rparr>],
       routers := (\<lambda>_. []), next_router := 1\<rparr>"
  by (simp add: registered_stub_def example_defs op_defs fun_upd_idem)

lemma no_repeated_registered_stub: "no_repeated_handler registered_stub"
  by (simp add: no_repeated_handler_def handlers_of_def registered_stub_eq stub_def)

section \<open>Registering a name twice\<close>

text \<open>
  C1.  When the registry already has an entry under the controller's name,
  \<^verbatim>\<open>addController\<close> throws \<^verbatim>\<open>Error('controller already presents')\<close> and the state
  after the call is the state before it: no router is created, no entry is written, no
  array is touched and nothing is mounted.
\<close>

theorem addController_duplicate:
  "routerControllerMap s (name c) = Some e \<Longrightarrow>
   addController c s = (Throw (Error ''controller already presents''), s)"
  by (simp add: addController_def get_entry_def)

theorem addController_duplicate_witness:
  "routerControllerMap (snd (addController stub example_server)) (name stub)
     = Some \<lparr>router = 0, controller = stub\<rparr> \<and>
   addController stub (snd (addController stub example_server))
     = (Throw (Error ''controller already presents''), snd (addController stub example_server))"
proof -
  have h: "routerControllerMap (snd (addController stub example_server)) (name stub)
     = Some \<lparr>router = 0, controller = stub\<rparr>"
    by (simp add: example_defs op_defs)
  from addController_duplicate [OF h] h show ?thesis by simp
qed

section \<open>Attaching the same declaration again\<close>

text \<open>
  C2, as the claim states it, fails.  The handler objects 0 and 1 are different objects
  with the same verb, path and method name.  After object 0 is attached to \<^verbatim>\<open>Stub\<close>,
  attaching object 1 appends it: the list has two entries with identical fields.
\<close>

theorem structurally_equal_declaration_appended:
  "handlerObjs registered_stub 1 = handlerObjs registered_stub 0 \<and>
   handlers_of (snd (addControllerHandlers ''Stub'' (One 0) registered_stub)) ''Stub'' = [0] \<and>
   handlers_of (snd (addControllerHandlers ''Stub'' (One 1)
      (snd (addControllerHandlers ''Stub'' (One 0) registered_stub)))) ''Stub'' = [0, 1] \<and>
   map (handlerObjs registered_stub) [0, 1]
     = [\<lparr>http_method = GET, path = ''/test'', handler = ''test''\<rparr>,
        \<lparr>http_method = GET, path = ''/test'', handler = ''test''\<rparr>]"
  by (simp add: registered_stub_eq example_defs op_defs handlers_of_def Let_def)

text \<open>
  C2, amended.  For a registered controller, attaching a handler object that is already
  in its handler list (the same object, as \<^verbatim>\<open>indexOf\<close> compares) leaves the list
  unchanged; attaching one object twice to a controller without handlers leaves exactly
  that one entry; and the invariant that no handler list contains the same object twice
  is preserved by \<^verbatim>\<open>addControllerHandlers\<close>, by \<^verbatim>\<open>close\<close>, \<^verbatim>\<open>listen\<close>,
  \<^verbatim>\<open>prepareSwagger\<close> and \<^verbatim>\<open>addMiddleware\<close>, and by \<^verbatim>\<open>addController\<close> when the
  array the new controller brings has no repeated object.
\<close>

theorem handler_list_dedup_by_reference:
  assumes "routerControllerMap s cid = Some e"
  shows "(h \<in> set (handlers_of s cid) \<longrightarrow>
      handlers_of (snd (addControllerHandlers cid (One h) s)) cid = handlers_of s cid) \<and>
    (handlers_of s cid = [] \<longrightarrow>
      handlers_of (snd (addControllerHandlers cid (One h)
        (snd (addControllerHandlers cid (One h) s)))) cid = [h]) \<and>
    (no_repeated_handler s \<longrightarrow>
      no_repeated_handler (snd (addControllerHandlers cid arg s)) \<and>
      (distinct (case handler_arr c of None \<Rightarrow> [] | Some a \<Rightarrow> arrays s a) \<longrightarrow>
         no_repeated_handler (snd (addController c s))) \<and>
      no_repeated_handler (snd (close s)) \<and>
      no_repeated_handler (snd (listen app_listen p s)) \<and>
      no_repeated_handler (snd (prepareSwagger x y s)) \<and>
      no_repeated_handler (addMiddleware m s))"
proof -
  let ?s1 = "snd (addControllerHandlers cid (One h) s)"
  have one: "allocated s (One h)" by simp
  obtain e1 where e1: "routerControllerMap ?s1 cid = Some e1"
    using addControllerHandlers_registered(5) [OF assms one] by blast
  have h1: "handlers_of ?s1 cid
      = (if h \<in> set (handlers_of s cid) then handlers_of s cid else handlers_of s cid @ [h])"
    by (rule attach_twice_handlers_of [OF assms])
  have h2: "handlers_of (snd (addControllerHandlers cid (One h) ?s1)) cid
      = (if h \<in> set (handlers_of ?s1 cid) then handlers_of ?s1 cid else handlers_of ?s1 cid @ [h])"
    by (rule attach_twice_handlers_of [OF e1])
  have a: "h \<in> set (handlers_of s cid) \<longrightarrow> handlers_of ?s1 cid = handlers_of s cid"
    by (simp add: h1)
  have b: "handlers_of s cid = [] \<longrightarrow>
      handlers_of (snd (addControllerHandlers cid (One h) ?s1)) cid = [h]"
    by (simp add: h1 h2)
  show ?thesis
    using a b addControllerHandlers_no_repeated [of s cid arg] addController_no_repeated [of s c]
    by (simp add: lifecycle_no_repeated)
qed

theorem handler_list_dedup_by_reference_witness:
  "routerControllerMap registered_stub ''Stub'' = Some \<lparr>router = 0, controller = stub\<rparr> \<and>
   handlers_of registered_stub ''Stub'' = [] \<and>
   no_repeated_handler registered_stub \<and>
   distinct (case handler_arr test_controller of None \<Rightarrow> [] | Some a \<Rightarrow> arrays registered_stub a) \<and>
   handlers_of (snd (addControllerHandlers ''Stub'' (One 0)
      (snd (addControllerHandlers ''Stub'' (One 0) registered_stub)))) ''Stub'' = [0] \<and>
   no_repeated_handler (snd (addControllerHandlers ''Stub'' (Many 0) registered_stub)) \<and>
   no_repeated_handler (snd (addController test_controller registered_stub)) \<and>
   routerControllerMap (snd (addControllerHandlers ''Stub'' (One 0) registered_stub)) ''Stub''
     = Some \<lparr>router = 0, controller = stub\<lparr>handler_arr := Some 2\<rparr>\<rparr> \<and>
   0 \<in> set (handlers_of (snd (addControllerHandlers ''Stub'' (One 0) registered_stub)) ''Stub'') \<and>
   handlers_of (snd (addControllerHandlers ''Stub'' (One 0)
      (snd (addControllerHandlers ''Stub'' (One 0) registered_stub)))) ''Stub''
     = handlers_of (snd (addControllerHandlers ''Stub'' (One 0) registered_stub)) ''Stub''"
proof -
  have r: "routerControllerMap registered_stub ''Stub'' = Some \<lparr>router = 0, controller = stub\<rparr>"
    by (simp add: registered_stub_eq)
  have e: "handlers_of registered_stub ''Stub'' = []"
    by (simp add: handlers_of_def registered_stub_eq stub_def)
  have d: "distinct (case handler_arr test_controller of None \<Rightarrow> []
      | Some a \<Rightarrow> arrays registered_stub a)"
    by (simp add: registered_stub_eq example_defs)
  have r1: "routerControllerMap (snd (addControllerHandlers ''Stub'' (One 0) registered_stub))
      ''Stub'' = Some \<lparr>router = 0, controller = stub\<lparr>handler_arr := Some 2\<rparr>\<rparr>"
    by (simp add: registered_stub_eq example_defs op_defs Let_def)
  have m1: "0 \<in> set (handlers_of (snd (addControllerHandlers ''Stub'' (One 0) registered_stub))
      ''Stub'')"
    by (simp add: registered_stub_eq example_defs op_defs handlers_of_def Let_def)
  from handler_list_dedup_by_reference [OF r, of 0 "Many 0" test_controller]
    handler_list_dedup_by_reference [OF r1, of 0] r e d r1 m1 no_repeated_registered_stub
  show ?thesis by simp
qed

section \<open>Attaching to a name that is not registered\<close>

text \<open>
  A name that is neither an own property of the dictionary nor a property of
  \<^verbatim>\<open>Object.prototype\<close> makes \<^verbatim>\<open>addControllerHandlers\<close> throw
  \<^verbatim>\<open>Error('controller not found')\<close> and leaves the state as it was.
\<close>

lemma addControllerHandlers_unknown:
  "get_entry s cid = Undefined \<Longrightarrow>
   addControllerHandlers cid arg s = (Throw (Error ''controller not found''), s)"
  by (simp add: addControllerHandlers_def)

text \<open>
  C3.  On a new server, where no controller is registered, the name \<^verbatim>\<open>toString\<close> is
  found on \<^verbatim>\<open>Object.prototype\<close>; the guard \<^verbatim>\<open>!this.routerControllerMap[controllerid]\<close>
  lets it through, and reading \<^verbatim>\<open>.controller.instance\<close> of the function found there
  throws a TypeError instead of \<^verbatim>\<open>Error('controller not found')\<close>.  The state is the
  state before the call.
\<close>

theorem addControllerHandlers_inherited_name:
  "routerControllerMap (ExpressServer_constructor s) ''toString'' = None \<and>
   addControllerHandlers ''toString'' arg (ExpressServer_constructor s)
     = (Throw TypeError, ExpressServer_constructor s)"
  by (simp add: addControllerHandlers_def get_entry_def ExpressServer_constructor_def
      object_prototype_keys_def)

section \<open>What the installed route handler does\<close>




text \<open>
  When the method throws or its promise is rejected, the closure never calls
  \<^verbatim>\<open>res.send\<close>: its own promise is rejected with the same error and the response is as
  it was.
\<close>

lemma route_handler_failure:
  assumes "instances s (target rt) (method_name rt) = Some m"
    and "m req = Throws err \<or> m req = Rejects err"
  shows "route_handler res_send s rt req res = (Rejected err, res)"
  using assms by (auto simp add: route_handler_def)

section \<open>Registering a controller without handlers\<close>

text \<open>
  C6.  On an empty registry, a successful \<^verbatim>\<open>addController\<close> of a controller that
  declares no handler (the \<^verbatim>\<open>handler\<close> field is undefined, or an empty array) leaves
  exactly one entry, under the controller's name, holding the controller as it was given
  and a new router without routes; the registry lists no handler for it; and the router
  is mounted on the application by the same call.
\<close>

theorem addController_without_handlers:
  assumes "routerControllerMap s = Map.empty" and "addController c s = (Normal, s')"
    and "handler_arr c = None \<or> (\<exists>a. handler_arr c = Some a \<and> arrays s a = [])"
  shows "routerControllerMap s' = [name c \<mapsto> \<lparr>router = next_router s, controller = c\<rparr>] \<and>
    handlers_of s' (name c) = [] \<and>
    routers s' (next_router s) = [] \<and>
    app s' = app s @ [UseRouter (next_router s)]"
proof -
  have u: "get_entry s (name c) = Undefined"
    by (rule addController_success [OF assms(2)])
  from assms(3) show ?thesis
  proof
    assume n: "handler_arr c = None"
    from addController_no_handler [OF u n] assms(1,2) n show ?thesis
      by (auto simp add: handlers_of_def)
  next
    assume "\<exists>a. handler_arr c = Some a \<and> arrays s a = []"
    then obtain a where a: "handler_arr c = Some a" "arrays s a = []" by blast
    from addController_with_handlers [OF u a(1)] assms(1,2) a show ?thesis
      by (auto simp add: handlers_of_def)
  qed
qed

theorem addController_without_handlers_witness:
  "routerControllerMap example_server = Map.empty \<and>
   addController stub example_server = (Normal, registered_stub) \<and>
   handler_arr stub = None \<and>
   routerControllerMap registered_stub = [''Stub'' \<mapsto> \<lparr>router = 0, controller = stub\<rparr>] \<and>
   handlers_of registered_stub ''Stub'' = [] \<and>
   routers registered_stub 0 = [] \<and>
   app registered_stub = [UseJson, UseMorgan ''tiny'', UseRouter 0] \<and>
   handler_arr empty_controller = Some 1 \<and> arrays example_server 1 = [] \<and>
   fst (addController empty_controller example_server) = Normal \<and>
   routerControllerMap (snd (addController empty_controller example_server))
     = [''Empty'' \<mapsto> \<lparr>router = 0, controller = empty_controller\<rparr>] \<and>
   handlers_of (snd (addController empty_controller example_server)) ''Empty'' = []"
proof -
  have e: "routerControllerMap example_server = Map.empty"
    by (simp add: example_defs)
  have ok: "addController stub example_server = (Normal, registered_stub)"
    by (simp add: registered_stub_def example_defs op_defs)
  have n: "handler_arr stub = None"
    by (simp add: stub_def)
  have w: "next_router example_server = 0" "app example_server = [UseJson, UseMorgan ''tiny'']"
    "name stub = ''Stub''" "name empty_controller = ''Empty''"
    by (simp_all add: example_defs)
  have h1: "handler_arr empty_controller = Some 1" and a1: "arrays example_server 1 = []"
    by (simp_all add: example_defs)
  have u: "get_entry example_server (name empty_controller) = Undefined"
    by (simp add: get_entry_def example_defs object_prototype_keys_def)
  have okf: "fst (addController empty_controller example_server) = Normal"
    using addController_with_handlers [OF u h1] by simp
  then have ok1: "addController empty_controller example_server
      = (Normal, snd (addController empty_controller example_server))"
    by (simp add: prod_eq_iff)
  from addController_without_handlers [OF e ok] addController_without_handlers [OF e ok1]
    n e ok h1 a1 okf
  show ?thesis
    by (simp add: w)
qed

section \<open>Closing\<close>

text \<open>
  C7.  \<^verbatim>\<open>close\<close> never throws; on a server that never listened (\<^verbatim>\<open>server\<close> is
  undefined) it changes nothing; and closing again after a close leaves the state the
  first close produced.
\<close>

theorem close_safe_idempotent:
  "fst (close s) = Normal \<and> (server s = None \<longrightarrow> close s = (Normal, s)) \<and>
   close (snd (close s)) = (Normal, snd (close s))"
  by (simp add: close_def http_close_def split: option.split)

theorem close_safe_idempotent_witness:
  "server example_server = None \<and> close example_server = (Normal, example_server) \<and>
   server listening_server \<noteq> None \<and>
   close (snd (close listening_server)) = (Normal, snd (close listening_server))"
proof -
  have h: "server example_server = None"
    by (simp add: example_defs)
  have l: "server listening_server \<noteq> None"
    by (simp add: listening_server_def)
  from close_safe_idempotent [of example_server] close_safe_idempotent [of listening_server] h l
  show ?thesis by simp
qed

section \<open>Routes are bound on every call\<close>

text \<open>
  C8.  For a registered controller, \<^verbatim>\<open>addControllerHandlers\<close> appends one route to
  the controller's router for every handler object it is given, whether or not the
  object is already in the handler list.  Attaching one object twice therefore leaves
  two equal routes in the router and one entry for the object in the handler list.
\<close>

theorem addControllerHandlers_binds_every_call:
  assumes "routerControllerMap s cid = Some e" and "allocated s arg"
  shows "fst (addControllerHandlers cid arg s) = Normal \<and>
    routers (snd (addControllerHandlers cid arg s)) (router e)
      = routers s (router e) @
          map (\<lambda>h. route_of (instance_ref (controller e)) (handlerObjs s h)) (declarations s arg) \<and>
    (let s1 = snd (addControllerHandlers cid (One h) s);
         s2 = snd (addControllerHandlers cid (One h) s1);
         rt = route_of (instance_ref (controller e)) (handlerObjs s h)
     in routers s2 (router e) = routers s (router e) @ [rt, rt] \<and>
        h \<in> set (handlers_of s1 cid) \<and>
        handlers_of s2 cid = handlers_of s1 cid \<and>
        (h \<notin> set (handlers_of s cid) \<longrightarrow> handlers_of s2 cid = handlers_of s cid @ [h]))"
proof -
  let ?s1 = "snd (addControllerHandlers cid (One h) s)"
  have one: "allocated s (One h)" by simp
  obtain e1 where e1: "routerControllerMap ?s1 cid = Some e1" "router e1 = router e"
    "instance_ref (controller e1) = instance_ref (controller e)"
    using addControllerHandlers_registered(5) [OF assms(1) one] by blast
  have one1: "allocated ?s1 (One h)" by simp
  have r1: "routers ?s1 (router e) = routers s (router e) @
      [route_of (instance_ref (controller e)) (handlerObjs s h)]"
    using addControllerHandlers_registered(2) [OF assms(1) one] by simp
  have r2: "routers (snd (addControllerHandlers cid (One h) ?s1)) (router e)
      = routers ?s1 (router e) @ [route_of (instance_ref (controller e)) (handlerObjs s h)]"
    using addControllerHandlers_registered(2) [OF e1(1) one1]
      addControllerHandlers_registered(3) [OF assms(1) one] e1(2,3) by simp
  have h1: "handlers_of ?s1 cid
      = (if h \<in> set (handlers_of s cid) then handlers_of s cid else handlers_of s cid @ [h])"
    by (rule attach_twice_handlers_of [OF assms(1)])
  have h2: "handlers_of (snd (addControllerHandlers cid (One h) ?s1)) cid
      = (if h \<in> set (handlers_of ?s1 cid) then handlers_of ?s1 cid else handlers_of ?s1 cid @ [h])"
    by (rule attach_twice_handlers_of [OF e1(1)])
  have mem: "h \<in> set (handlers_of ?s1 cid)" by (simp add: h1)
  show ?thesis
    using addControllerHandlers_registered(1,2) [OF assms] r1 r2 h1 h2 mem
    by (simp add: Let_def)
qed

theorem addControllerHandlers_binds_every_call_witness:
  "routerControllerMap registered_stub ''Stub'' = Some \<lparr>router = 0, controller = stub\<rparr> \<and>
   allocated registered_stub (Many 0) \<and>
   fst (addControllerHandlers ''Stub'' (Many 0) registered_stub) = Normal \<and>
   routers (snd (addControllerHandlers ''Stub'' (Many 0) registered_stub)) 0
     = [\<lparr>verb = GET, route_path = ''/test'', target = 0, method_name = ''test''\<rparr>,
        \<lparr>verb = POST, route_path = ''/later'', target = 0, method_name = ''later''\<rparr>] \<and>
   routers (snd (addControllerHandlers ''Stub'' (One 0)
      (snd (addControllerHandlers ''Stub'' (One 0) registered_stub)))) 0
     = [\<lparr>verb = GET, route_path = ''/test'', target = 0, method_name = ''test''\<rparr>,
        \<lparr>verb = GET, route_path = ''/test'', target = 0, method_name = ''test''\<rparr>] \<and>
   handlers_of (snd (addControllerHandlers ''Stub'' (One 0)
      (snd (addControllerHandlers ''Stub'' (One 0) registered_stub)))) ''Stub'' = [0]"
proof -
  have r: "routerControllerMap registered_stub ''Stub'' = Some \<lparr>router = 0, controller = stub\<rparr>"
    by (simp add: registered_stub_eq)
  have al: "allocated registered_stub (Many 0)"
    by (simp add: registered_stub_eq example_defs)
  have e: "handlers_of registered_stub ''Stub'' = []"
    by (simp add: handlers_of_def registered_stub_eq stub_def)
  have w: "routers registered_stub 0 = []" "handlerObjs registered_stub = handlerObjs example_world"
    "arrays registered_stub = arrays example_world"
    by (simp_all add: registered_stub_eq)
  from addControllerHandlers_binds_every_call [OF r al, of 0] r al e
  show ?thesis
    by (auto simp add: Let_def w route_of_def stub_def example_world_def)
qed

section \<open>Documentation endpoints\<close>

text \<open>
  C9, as the claim states it, fails.  With \<^verbatim>\<open>swaggerLocation: ''\<close> and \<^verbatim>\<open>swagger\<close>
  absent, the constructor calls \<^verbatim>\<open>prepareSwagger\<close>, \<^verbatim>\<open>express.static('')\<close> throws a
  TypeError, and the constructor throws with nothing mounted: no documentation exposure
  is configured.
\<close>

theorem empty_swaggerLocation_throws:
  "BasicService_constructor
     (Some \<lparr>port = None, docsPath = None, swaggerLocation = Some [], swagger = None\<rparr>)
     example_server
   = (Inl TypeError, example_server)"
  by (simp add: BasicService_constructor_def prepareSwagger_def express_static_def
      DEFAULT_SWAGGER_PATH_def)

text \<open>
  C9, amended.  Constructing a \<^verbatim>\<open>BasicService\<close> with \<^verbatim>\<open>swagger: false\<close> leaves the server
  as it was.  In every other case (no configuration object, \<^verbatim>\<open>swagger\<close> absent or
  true) it mounts the static assets of \<^verbatim>\<open>swaggerLocation\<close>, \<^verbatim>\<open>public\<close> when absent,
  and the documentation UI at \<^verbatim>\<open>docsPath\<close>, \<^verbatim>\<open>/docs\<close> when absent, with the
  descriptor at \<^verbatim>\<open>/swagger.json\<close>; unless \<^verbatim>\<open>swaggerLocation\<close> is the empty string: then
  the constructor throws a TypeError and the server is as it was.
\<close>

theorem BasicService_constructor_swagger:
  "BasicService_constructor cfg s =
     (if Option.bind cfg swagger = Some False then (Inr \<lparr>serviceConfig = cfg\<rparr>, s)
      else if Option.bind cfg swaggerLocation = Some [] then (Inl TypeError, s)
      else (Inr \<lparr>serviceConfig = cfg\<rparr>,
            s\<lparr>app := app s @
             [UseStatic (case Option.bind cfg swaggerLocation of None \<Rightarrow> ''public'' | Some l \<Rightarrow> l),
              UseSwaggerUi (case Option.bind cfg docsPath of None \<Rightarrow> ''/docs'' | Some p \<Rightarrow> p)
                ''/swagger.json'']\<rparr>))"
  by (simp add: BasicService_constructor_def prepareSwagger_def express_static_def
      DEFAULT_SWAGGER_PATH_def DEFAULT_SWAGGER_LOCATION_def DEFAULT_SWAGGER_URL_def
      split: option.split)

theorem BasicService_constructor_swagger_witness:
  "BasicService_constructor
      (Some \<lparr>port = None, docsPath = None, swaggerLocation = None, swagger = Some False\<rparr>)
      example_server
     = (Inr \<lparr>serviceConfig =
          Some \<lparr>port = None, docsPath = None, swaggerLocation = None, swagger = Some False\<rparr>\<rparr>,
        example_server) \<and>
   fst (BasicService_constructor None example_server) = Inr \<lparr>serviceConfig = None\<rparr> \<and>
   app (snd (BasicService_constructor None example_server))
     = [UseJson, UseMorgan ''tiny'', UseStatic ''public'',
        UseSwaggerUi ''/docs'' ''/swagger.json''] \<and>
   app (snd (BasicService_constructor
          (Some \<lparr>port = None, docsPath = Some ''/api'', swaggerLocation = Some ''assets'',
                 swagger = Some True\<rparr>)
          example_server))
     = [UseJson, UseMorgan ''tiny'', UseStatic ''assets'',
        UseSwaggerUi ''/api'' ''/swagger.json'']"
  using BasicService_constructor_swagger
      [of "Some \<lparr>port = None, docsPath = None, swaggerLocation = None, swagger = Some False\<rparr>"
          example_server]
    BasicService_constructor_swagger [of None example_server]
    BasicService_constructor_swagger
      [of "Some \<lparr>port = None, docsPath = Some ''/api'', swaggerLocation = Some ''assets'',
                  swagger = Some True\<rparr>"
          example_server]
  by (simp add: example_defs)

section \<open>Handlers declared before registration\<close>

text \<open>
  C10.  When the controller comes with a handler array, a successful \<^verbatim>\<open>addController\<close>
  binds one route per element of the array, in order, in the new router, and changes no
  array: the handler list of the new entry is the array as it was, since every element
  is found in the array it is read from.
\<close>

theorem addController_keeps_declared_handlers:
  assumes "handler_arr c = Some a" and "addController c s = (Normal, s')"
  shows "arrays s' = arrays s \<and>
    handlers_of s' (name c) = arrays s a \<and>
    routerControllerMap s' (name c) = Some \<lparr>router = next_router s, controller = c\<rparr> \<and>
    routers s' (next_router s)
      = map (\<lambda>h. route_of (instance_ref c) (handlerObjs s h)) (arrays s a)"
proof -
  have u: "get_entry s (name c) = Undefined"
    by (rule addController_success [OF assms(2)])
  from addController_with_handlers [OF u assms(1)] assms show ?thesis
    by (auto simp add: handlers_of_def)
qed

theorem addController_keeps_declared_handlers_witness:
  "handler_arr test_controller = Some 0 \<and>
   fst (addController test_controller example_server) = Normal \<and>
   arrays (snd (addController test_controller example_server)) 0 = [0, 2] \<and>
   handlers_of (snd (addController test_controller example_server)) ''test'' = [0, 2] \<and>
   routers (snd (addController test_controller example_server)) 0
     = [\<lparr>verb = GET, route_path = ''/test'', target = 0, method_name = ''test''\<rparr>,
        \<lparr>verb = POST, route_path = ''/later'', target = 0, method_name = ''later''\<rparr>]"
proof -
  have h: "handler_arr test_controller = Some 0"
    by (simp add: test_controller_def)
  have u: "get_entry example_server (name test_controller) = Undefined"
    by (simp add: get_entry_def example_defs object_prototype_keys_def)
  have ok: "addController test_controller example_server
      = (Normal, snd (addController test_controller example_server))"
    using addController_with_handlers [OF u h] by simp
  have w: "arrays example_server 0 = [0, 2]" "next_router example_server = 0"
    "name test_controller = ''test''" "instance_ref test_controller = 0"
    "handlerObjs example_server 0 = \<lparr>http_method = GET, path = ''/test'', handler = ''test''\<rparr>"
    "handlerObjs example_server 2 = \<lparr>http_method = POST, path = ''/later'', handler = ''later''\<rparr>"
    by (simp_all add: example_defs)
  have okf: "fst (addController test_controller example_server) = Normal"
    using addController_with_handlers [OF u h] by simp
  from addController_keeps_declared_handlers [OF h ok] h okf show ?thesis
    by (simp add: w route_of_def)
qed

end
